theory Spec2Isabelle
  imports Complex_Main
begin

section \<open>The ChatKit session relay (api/index.py)\<close>

text \<open>
  The program is one FastAPI route, \<^verbatim>\<open>POST /chatkit/session\<close>. Its handler reads the
  provider credential from the process environment, builds an SDK client, calls
  \<^verbatim>\<open>client.chatkit.sessions.create\<close> once and returns the client secret of the
  session it gets back.

  Everything outside the file is a parameter of the model: the process environment is a
  map from variable names to values, and the provider (the SDK call together with the
  remote service behind it) is an arbitrary function from the credential and the
  submitted dictionary to either an exception or a session object. Effects are written
  into a log carried by the state, so that what the handler reads and what it sends can
  be stated.
\<close>

subsection \<open>Values\<close>

text \<open>
  A decoded JSON value, as Python's \<^verbatim>\<open>json.loads\<close> produces it and as a \<^verbatim>\<open>dict\<close>
  literal builds it: an object is a dictionary, so each key has at most one value.
\<close>

datatype json =
    JNull
  | JBool bool
  | JInt int
  | JFloat real
  | JString string
  | JArray "json list"
  | JObject "string \<Rightarrow> json option"

text \<open>The exceptions that can leave the handler: the one it raises itself, and whatever
  the provider call raises.\<close>

datatype exception =
    RuntimeError string
  | ProviderError string

text \<open>\<^verbatim>\<open>class SessionRequest(BaseModel): deviceId: str\<close>\<close>

record SessionRequest =
  deviceId :: string

text \<open>The SDK client holds the credential it was built with; the session object exposes
  \<^verbatim>\<open>client_secret\<close>, the only attribute the handler reads.\<close>

record OpenAI =
  api_key :: string

record ChatSession =
  client_secret :: string

type_synonym provider = "string \<Rightarrow> json \<Rightarrow> exception + ChatSession"

subsection \<open>Process state and effects\<close>

text \<open>
  The CORS middleware registered at import time, with the four keyword arguments of
  \<^verbatim>\<open>app.add_middleware(CORSMiddleware, ...)\<close>, and the application object holding it.
\<close>

record CORSMiddleware =
  allow_origins :: "string list"
  allow_credentials :: bool
  allow_methods :: "string list"
  allow_headers :: "string list"

record FastAPI =
  user_middleware :: "CORSMiddleware list"

datatype event =
    Getenv string
  | SessionsCreate string json

text \<open>
  The state of the process: the environment, the module-level global \<^verbatim>\<open>app\<close>
  (\<open>None\<close> before the module is imported) and the log of effects performed so far.
  \<open>Getenv k\<close> is a read of the environment variable \<open>k\<close>;
  \<open>SessionsCreate key params\<close> is one call of \<^verbatim>\<open>chatkit.sessions.create(params)\<close>
  on a client built with credential \<open>key\<close>, the only outbound operation of the program.
\<close>

record world =
  environ :: "string \<Rightarrow> string option"
  app :: "FastAPI option"
  effects :: "event list"

primrec outbound_calls :: "event list \<Rightarrow> (string \<times> json) list" where
  "outbound_calls [] = []"
| "outbound_calls (e # es) =
     (case e of Getenv _ \<Rightarrow> outbound_calls es
      | SessionsCreate key params \<Rightarrow> (key, params) # outbound_calls es)"

primrec env_reads :: "event list \<Rightarrow> string list" where
  "env_reads [] = []"
| "env_reads (e # es) =
     (case e of Getenv k \<Rightarrow> k # env_reads es
      | SessionsCreate _ _ \<Rightarrow> env_reads es)"

text \<open>Reading a key of a dictionary; anything that is not a dictionary has no keys.\<close>

fun dict_get :: "json \<Rightarrow> string \<Rightarrow> json option" where
  "dict_get (JObject m) k = m k"
| "dict_get _ k = None"

subsection \<open>Module level: lines 32 to 39\<close>

definition module_init :: "world \<Rightarrow> world" where
  "module_init w =
     w\<lparr>app := Some \<lparr>user_middleware =
          [\<lparr>allow_origins = [''*''], allow_credentials = True,
            allow_methods = [''*''], allow_headers = [''*'']\<rparr>]\<rparr>\<rparr>"

subsection \<open>The library calls the handler makes\<close>

text \<open>\<^verbatim>\<open>os.getenv(key)\<close>: the value of the variable, or \<^verbatim>\<open>None\<close>.\<close>

definition os_getenv :: "string \<Rightarrow> world \<Rightarrow> string option \<times> world" where
  "os_getenv key w = (environ w key, w\<lparr>effects := effects w @ [Getenv key]\<rparr>)"

text \<open>\<^verbatim>\<open>client.chatkit.sessions.create(params)\<close>: one call of the provider, which
  returns a session or raises.\<close>

definition sessions_create ::
  "provider \<Rightarrow> OpenAI \<Rightarrow> json \<Rightarrow> world \<Rightarrow> (exception + ChatSession) \<times> world" where
  "sessions_create provider client params w =
     (provider (api_key client) params,
      w\<lparr>effects := effects w @ [SessionsCreate (api_key client) params]\<rparr>)"

subsection \<open>get_openai_client: lines 41 to 48\<close>

text \<open>\<^verbatim>\<open>if not api_key\<close> holds for \<^verbatim>\<open>None\<close> and for the empty string.\<close>

definition get_openai_client :: "world \<Rightarrow> (exception + OpenAI) \<times> world" where
  "get_openai_client w =
     (case os_getenv ''OPENAI_API_KEY'' w of
        (value, w1) \<Rightarrow>
          (case value of
             None \<Rightarrow>
               (Inl (RuntimeError
                  ''OPENAI_API_KEY environment variable is not set. Set it before starting the server.''),
                w1)
           | Some key \<Rightarrow>
               if key = [] then
                 (Inl (RuntimeError
                    ''OPENAI_API_KEY environment variable is not set. Set it before starting the server.''),
                  w1)
               else (Inr \<lparr>api_key = key\<rparr>, w1)))"

subsection \<open>create_chatkit_session: lines 50 to 68\<close>

definition workflow_id :: string where
  "workflow_id = ''wf_692605e459d481909eb01292c1ae28e307b2a2a9ee1d324''"

definition create_chatkit_session ::
  "provider \<Rightarrow> SessionRequest \<Rightarrow> world \<Rightarrow> (exception + json) \<times> world" where
  "create_chatkit_session provider req w =
     (case get_openai_client w of
        (Inl exn, w1) \<Rightarrow> (Inl exn, w1)
      | (Inr client, w1) \<Rightarrow>
          (case sessions_create provider client
                  (JObject [''workflow'' \<mapsto> JObject [''id'' \<mapsto> JString workflow_id],
                            ''user'' \<mapsto> JString (deviceId req)]) w1 of
             (Inl exn, w2) \<Rightarrow> (Inl exn, w2)
           | (Inr session, w2) \<Rightarrow>
               (Inr (JObject [''client_secret'' \<mapsto> JString (client_secret session)]), w2)))"

subsection \<open>The route: the decorator and the typed parameter of line 50 and 51\<close>

text \<open>
  Validation of a decoded body against \<^verbatim>\<open>SessionRequest\<close>: the body has to be a
  dictionary, the field \<^verbatim>\<open>deviceId\<close> is required (it has no default) and has to be a
  string. Other keys are ignored.
\<close>

datatype validation_error =
    ModelAttributesType
  | Missing string
  | StringType string

definition SessionRequest_validate :: "json \<Rightarrow> validation_error + SessionRequest" where
  "SessionRequest_validate body =
     (case body of
        JObject m \<Rightarrow>
          (case m ''deviceId'' of
             None \<Rightarrow> Inl (Missing ''deviceId'')
           | Some (JString s) \<Rightarrow> Inr \<lparr>deviceId = s\<rparr>
           | Some _ \<Rightarrow> Inl (StringType ''deviceId''))
      | _ \<Rightarrow> Inl ModelAttributesType)"

datatype content =
    JSONContent json
  | PlainText string
  | ValidationDetail validation_error

record http_response =
  status_code :: nat
  body :: content

text \<open>
  What the framework does with a request to the route: it validates the body and answers
  422 without calling the handler when that fails; it answers 500 when the handler
  raises; otherwise it answers 200 with the dictionary the handler returned.
\<close>

definition post_chatkit_session :: "provider \<Rightarrow> json \<Rightarrow> world \<Rightarrow> http_response \<times> world" where
  "post_chatkit_session provider request_body w =
     (case SessionRequest_validate request_body of
        Inl verr \<Rightarrow> (\<lparr>status_code = 422, body = ValidationDetail verr\<rparr>, w)
      | Inr req \<Rightarrow>
          (case create_chatkit_session provider req w of
             (Inl exn, w') \<Rightarrow> (\<lparr>status_code = 500, body = PlainText ''Internal Server Error''\<rparr>, w')
           | (Inr d, w') \<Rightarrow> (\<lparr>status_code = 200, body = JSONContent d\<rparr>, w')))"

definition client_error :: "http_response \<Rightarrow> bool" where
  "client_error r = (400 \<le> status_code r \<and> status_code r < 500)"

definition server_error :: "http_response \<Rightarrow> bool" where
  "server_error r = (500 \<le> status_code r \<and> status_code r < 600)"

fun has_field :: "string \<Rightarrow> content \<Rightarrow> bool" where
  "has_field k (JSONContent j) = (dict_get j k \<noteq> None)"
| "has_field k _ = False"

text \<open>The effects performed between two states of the process: what the later log has
  beyond the earlier one.\<close>

definition performed :: "world \<Rightarrow> world \<Rightarrow> event list" where
  "performed w w' = drop (length (effects w)) (effects w')"

text \<open>Notation for the two literals of the source that the statements below repeat: the
  dictionary handed to the provider for a device identifier, and the message of the
  configuration error.\<close>

abbreviation session_params :: "string \<Rightarrow> json" where
  "session_params d \<equiv>
     JObject [''workflow'' \<mapsto> JObject [''id'' \<mapsto> JString workflow_id], ''user'' \<mapsto> JString d]"

abbreviation not_set_message :: string where
  "not_set_message \<equiv>
     ''OPENAI_API_KEY environment variable is not set. Set it before starting the server.''"

section \<open>Properties\<close>

subsection \<open>Shared facts about the two steps of the handler\<close>

lemma get_openai_client_unset:
  "environ w ''OPENAI_API_KEY'' = None \<Longrightarrow>
   get_openai_client w =
     (Inl (RuntimeError not_set_message), w\<lparr>effects := effects w @ [Getenv ''OPENAI_API_KEY'']\<rparr>)"
  by (simp add: get_openai_client_def os_getenv_def)

lemma get_openai_client_empty:
  "environ w ''OPENAI_API_KEY'' = Some [] \<Longrightarrow>
   get_openai_client w =
     (Inl (RuntimeError not_set_message), w\<lparr>effects := effects w @ [Getenv ''OPENAI_API_KEY'']\<rparr>)"
  by (simp add: get_openai_client_def os_getenv_def)

lemma get_openai_client_set:
  "environ w ''OPENAI_API_KEY'' = Some key \<Longrightarrow> key \<noteq> [] \<Longrightarrow>
   get_openai_client w =
     (Inr \<lparr>api_key = key\<rparr>, w\<lparr>effects := effects w @ [Getenv ''OPENAI_API_KEY'']\<rparr>)"
  by (simp add: get_openai_client_def os_getenv_def)

lemma create_unset:
  "environ w ''OPENAI_API_KEY'' = None \<Longrightarrow>
   create_chatkit_session provider req w =
     (Inl (RuntimeError not_set_message), w\<lparr>effects := effects w @ [Getenv ''OPENAI_API_KEY'']\<rparr>)"
  by (simp add: create_chatkit_session_def get_openai_client_unset)

lemma create_empty:
  "environ w ''OPENAI_API_KEY'' = Some [] \<Longrightarrow>
   create_chatkit_session provider req w =
     (Inl (RuntimeError not_set_message), w\<lparr>effects := effects w @ [Getenv ''OPENAI_API_KEY'']\<rparr>)"
  by (simp add: create_chatkit_session_def get_openai_client_empty)

lemma create_set:
  "environ w ''OPENAI_API_KEY'' = Some key \<Longrightarrow> key \<noteq> [] \<Longrightarrow>
   create_chatkit_session provider req w =
     (case provider key (session_params (deviceId req)) of
        Inl exn \<Rightarrow> Inl exn
      | Inr session \<Rightarrow> Inr (JObject [''client_secret'' \<mapsto> JString (client_secret session)]),
      w\<lparr>effects := effects w @
           [Getenv ''OPENAI_API_KEY'', SessionsCreate key (session_params (deviceId req))]\<rparr>)"
  by (simp add: create_chatkit_session_def get_openai_client_set sessions_create_def
      split: sum.splits)

lemma performed_extend [simp]: "performed w (w\<lparr>effects := effects w @ es\<rparr>) = es"
  by (simp add: performed_def)

text \<open>Whatever the environment holds, the handler extends the log and changes nothing
  else; the log grows by the read of the credential and, when a credential is there, by
  one call of the provider.\<close>

lemma create_effects:
  "snd (create_chatkit_session provider req w) =
     w\<lparr>effects := effects w @
        (case environ w ''OPENAI_API_KEY'' of
           None \<Rightarrow> [Getenv ''OPENAI_API_KEY'']
         | Some key \<Rightarrow>
             if key = [] then [Getenv ''OPENAI_API_KEY'']
             else [Getenv ''OPENAI_API_KEY'',
                   SessionsCreate key (session_params (deviceId req))])\<rparr>"
proof (cases "environ w ''OPENAI_API_KEY''")
  case None
  then show ?thesis by (simp add: create_unset)
next
  case (Some key)
  show ?thesis
  proof (cases "key = []")
    case True
    with Some show ?thesis by (simp add: create_empty)
  next
    case False
    with Some show ?thesis by (simp add: create_set)
  qed
qed

subsection \<open>The claims\<close>

text \<open>
  C1. For a request whose \<^verbatim>\<open>deviceId\<close> is a non-empty string \<open>d\<close>, with a credential
  configured and the provider call returning a session whose client secret is \<open>s\<close>, the
  handler returns exactly the dictionary with the single key \<^verbatim>\<open>client_secret\<close> bound to
  \<open>s\<close>; the one call sent to the provider carries \<open>d\<close> under \<^verbatim>\<open>user\<close> and the fixed
  workflow identifier under \<^verbatim>\<open>workflow.id\<close>.
\<close>

theorem create_session_relays_secret:
  assumes "deviceId req = d" and "d \<noteq> []"
    and "environ w ''OPENAI_API_KEY'' = Some key" and "key \<noteq> []"
    and "provider key (session_params d) = Inr session"
    and "client_secret session = s"
  shows "create_chatkit_session provider req w =
           (Inr (JObject [''client_secret'' \<mapsto> JString s]),
            w\<lparr>effects := effects w @
                 [Getenv ''OPENAI_API_KEY'', SessionsCreate key (session_params d)]\<rparr>)
         \<and> dict_get (session_params d) ''user'' = Some (JString d)
         \<and> dict_get (session_params d) ''workflow''
             = Some (JObject [''id'' \<mapsto> JString ''wf_692605e459d481909eb01292c1ae28e307b2a2a9ee1d324''])"
  using assms by (simp add: create_set workflow_id_def)

theorem create_session_relays_secret_witness:
  "create_chatkit_session (\<lambda>key params. Inr \<lparr>client_secret = ''cs_abc''\<rparr>)
     \<lparr>deviceId = ''device-123''\<rparr>
     \<lparr>environ = [''OPENAI_API_KEY'' \<mapsto> ''sk-test''], app = None, effects = []\<rparr>
   = (Inr (JObject [''client_secret'' \<mapsto> JString ''cs_abc'']),
      \<lparr>environ = [''OPENAI_API_KEY'' \<mapsto> ''sk-test''], app = None,
       effects = [Getenv ''OPENAI_API_KEY'',
                  SessionsCreate ''sk-test'' (session_params ''device-123'')]\<rparr>)"
  using create_session_relays_secret
    [of "\<lparr>deviceId = ''device-123''\<rparr>" "''device-123''"
        "\<lparr>environ = [''OPENAI_API_KEY'' \<mapsto> ''sk-test''], app = None, effects = []\<rparr>"
        "''sk-test''" "\<lambda>key params. Inr \<lparr>client_secret = ''cs_abc''\<rparr>"
        "\<lparr>client_secret = ''cs_abc''\<rparr>" "''cs_abc''"]
  by simp

text \<open>
  C2. When the credential is absent from the environment, the handler fails with the
  configuration error for every request it is given; the only effect it has performed is
  the read of the variable, so no call of the provider was made; the caller of the route
  receives a server-side error.
\<close>

theorem missing_credential_fails_before_any_call:
  assumes "environ w ''OPENAI_API_KEY'' = None"
  shows "create_chatkit_session provider req w =
           (Inl (RuntimeError not_set_message),
            w\<lparr>effects := effects w @ [Getenv ''OPENAI_API_KEY'']\<rparr>)
         \<and> outbound_calls (performed w (snd (create_chatkit_session provider req w))) = []
         \<and> (\<forall>request_body. SessionRequest_validate request_body = Inr req \<longrightarrow>
               server_error (fst (post_chatkit_session provider request_body w))
               \<and> outbound_calls
                   (performed w (snd (post_chatkit_session provider request_body w))) = [])"
  using assms by (simp add: create_unset post_chatkit_session_def server_error_def)

theorem missing_credential_fails_before_any_call_witness:
  "create_chatkit_session (\<lambda>key params. Inr \<lparr>client_secret = ''cs_abc''\<rparr>)
     \<lparr>deviceId = ''device-123''\<rparr> \<lparr>environ = Map.empty, app = None, effects = []\<rparr>
   = (Inl (RuntimeError not_set_message),
      \<lparr>environ = Map.empty, app = None, effects = [Getenv ''OPENAI_API_KEY'']\<rparr>)
   \<and> server_error
       (fst (post_chatkit_session (\<lambda>key params. Inr \<lparr>client_secret = ''cs_abc''\<rparr>)
          (JObject [''deviceId'' \<mapsto> JString ''device-123''])
          \<lparr>environ = Map.empty, app = None, effects = []\<rparr>))"
proof -
  have v: "SessionRequest_validate (JObject [''deviceId'' \<mapsto> JString ''device-123''])
           = Inr \<lparr>deviceId = ''device-123''\<rparr>"
    by (simp add: SessionRequest_validate_def)
  show ?thesis
    using v missing_credential_fails_before_any_call
      [of "\<lparr>environ = Map.empty, app = None, effects = []\<rparr>"
          "\<lambda>key params. Inr \<lparr>client_secret = ''cs_abc''\<rparr>" "\<lparr>deviceId = ''device-123''\<rparr>"]
    by simp
qed

text \<open>
  C3. When the body has no \<^verbatim>\<open>deviceId\<close> field, or has one that is not a string,
  validation fails and the handler is not run: the caller receives a client-side error
  (422) and the state of the process, its log of effects included, is what it was, so no
  call of the provider and not even the read of the credential has happened.
\<close>

theorem invalid_body_rejected_before_handler:
  assumes "dict_get request_body ''deviceId'' = None
           \<or> (\<exists>v. dict_get request_body ''deviceId'' = Some v \<and> (\<forall>s. v \<noteq> JString s))"
  shows "(\<exists>verr. SessionRequest_validate request_body = Inl verr)
         \<and> client_error (fst (post_chatkit_session provider request_body w))
         \<and> snd (post_chatkit_session provider request_body w) = w
         \<and> outbound_calls
             (performed w (snd (post_chatkit_session provider request_body w))) = []"
proof -
  have "\<exists>verr. SessionRequest_validate request_body = Inl verr"
    using assms
    by (cases request_body)
      (auto simp add: SessionRequest_validate_def split: option.splits json.splits)
  then obtain verr where "SessionRequest_validate request_body = Inl verr" ..
  then show ?thesis
    by (simp add: post_chatkit_session_def client_error_def performed_def)
qed

theorem invalid_body_rejected_before_handler_witness:
  "status_code (fst (post_chatkit_session (\<lambda>key params. Inr \<lparr>client_secret = ''cs_abc''\<rparr>)
      (JObject Map.empty)
      \<lparr>environ = [''OPENAI_API_KEY'' \<mapsto> ''sk-test''], app = None, effects = []\<rparr>)) = 422
   \<and> client_error (fst (post_chatkit_session (\<lambda>key params. Inr \<lparr>client_secret = ''cs_abc''\<rparr>)
      (JObject Map.empty)
      \<lparr>environ = [''OPENAI_API_KEY'' \<mapsto> ''sk-test''], app = None, effects = []\<rparr>))
   \<and> snd (post_chatkit_session (\<lambda>key params. Inr \<lparr>client_secret = ''cs_abc''\<rparr>)
      (JObject [''deviceId'' \<mapsto> JInt 5])
      \<lparr>environ = [''OPENAI_API_KEY'' \<mapsto> ''sk-test''], app = None, effects = []\<rparr>)
     = \<lparr>environ = [''OPENAI_API_KEY'' \<mapsto> ''sk-test''], app = None, effects = []\<rparr>"
proof -
  have a: "dict_get (JObject Map.empty) ''deviceId'' = None
           \<or> (\<exists>v. dict_get (JObject Map.empty) ''deviceId'' = Some v \<and> (\<forall>s. v \<noteq> JString s))"
    by simp
  have b: "dict_get (JObject [''deviceId'' \<mapsto> JInt 5]) ''deviceId'' = None
           \<or> (\<exists>v. dict_get (JObject [''deviceId'' \<mapsto> JInt 5]) ''deviceId'' = Some v
                  \<and> (\<forall>s. v \<noteq> JString s))"
    by simp
  have c: "status_code (fst (post_chatkit_session (\<lambda>key params. Inr \<lparr>client_secret = ''cs_abc''\<rparr>)
      (JObject Map.empty)
      \<lparr>environ = [''OPENAI_API_KEY'' \<mapsto> ''sk-test''], app = None, effects = []\<rparr>)) = 422"
    by (simp add: post_chatkit_session_def SessionRequest_validate_def)
  show ?thesis
    using c invalid_body_rejected_before_handler [OF a] invalid_body_rejected_before_handler [OF b]
    by blast
qed

text \<open>
  C4. When the provider call raises, the handler ends with that same exception: it has
  called the provider exactly once (no second attempt) and returns no value in place of
  the session. The caller of the route receives a server-side error whose body has no
  \<^verbatim>\<open>client_secret\<close> field.
\<close>

theorem provider_error_propagates:
  assumes "environ w ''OPENAI_API_KEY'' = Some key" and "key \<noteq> []"
    and "provider key (session_params (deviceId req)) = Inl exn"
  shows "create_chatkit_session provider req w =
           (Inl exn,
            w\<lparr>effects := effects w @
                 [Getenv ''OPENAI_API_KEY'',
                  SessionsCreate key (session_params (deviceId req))]\<rparr>)
         \<and> length (outbound_calls
              (performed w (snd (create_chatkit_session provider req w)))) = 1
         \<and> (\<forall>request_body. SessionRequest_validate request_body = Inr req \<longrightarrow>
               server_error (fst (post_chatkit_session provider request_body w))
               \<and> \<not> has_field ''client_secret''
                     (body (fst (post_chatkit_session provider request_body w)))
               \<and> snd (post_chatkit_session provider request_body w)
                   = snd (create_chatkit_session provider req w))"
  using assms by (simp add: create_set post_chatkit_session_def server_error_def)

theorem provider_error_propagates_witness:
  "create_chatkit_session (\<lambda>key params. Inl (ProviderError ''rate limit''))
     \<lparr>deviceId = ''device-123''\<rparr>
     \<lparr>environ = [''OPENAI_API_KEY'' \<mapsto> ''sk-test''], app = None, effects = []\<rparr>
   = (Inl (ProviderError ''rate limit''),
      \<lparr>environ = [''OPENAI_API_KEY'' \<mapsto> ''sk-test''], app = None,
       effects = [Getenv ''OPENAI_API_KEY'',
                  SessionsCreate ''sk-test'' (session_params ''device-123'')]\<rparr>)
   \<and> server_error
       (fst (post_chatkit_session (\<lambda>key params. Inl (ProviderError ''rate limit''))
          (JObject [''deviceId'' \<mapsto> JString ''device-123''])
          \<lparr>environ = [''OPENAI_API_KEY'' \<mapsto> ''sk-test''], app = None, effects = []\<rparr>))
   \<and> \<not> has_field ''client_secret''
       (body (fst (post_chatkit_session (\<lambda>key params. Inl (ProviderError ''rate limit''))
          (JObject [''deviceId'' \<mapsto> JString ''device-123''])
          \<lparr>environ = [''OPENAI_API_KEY'' \<mapsto> ''sk-test''], app = None, effects = []\<rparr>)))"
proof -
  have v: "SessionRequest_validate (JObject [''deviceId'' \<mapsto> JString ''device-123''])
           = Inr \<lparr>deviceId = ''device-123''\<rparr>"
    by (simp add: SessionRequest_validate_def)
  show ?thesis
    using v provider_error_propagates
      [of "\<lparr>environ = [''OPENAI_API_KEY'' \<mapsto> ''sk-test''], app = None, effects = []\<rparr>"
          "''sk-test''" "\<lambda>key params. Inl (ProviderError ''rate limit'')"
          "\<lparr>deviceId = ''device-123''\<rparr>" "ProviderError ''rate limit''"]
    by simp
qed

text \<open>
  C5. Take any two invocations, with any two requests, environments and providers. Every
  call either of them sends to the provider carries the same \<^verbatim>\<open>workflow\<close> entry, the
  dictionary with the single key \<^verbatim>\<open>id\<close> bound to the constant of the source; it does not
  depend on the device identifier of the request.
\<close>

theorem workflow_independent_of_request:
  assumes "(key1, params1) \<in> set (outbound_calls
              (performed w1 (snd (create_chatkit_session provider1 req1 w1))))"
    and "(key2, params2) \<in> set (outbound_calls
              (performed w2 (snd (create_chatkit_session provider2 req2 w2))))"
  shows "dict_get params1 ''workflow'' = dict_get params2 ''workflow''
         \<and> dict_get params1 ''workflow''
             = Some (JObject [''id'' \<mapsto> JString ''wf_692605e459d481909eb01292c1ae28e307b2a2a9ee1d324''])"
proof -
  have one: "dict_get params ''workflow''
               = Some (JObject [''id'' \<mapsto> JString ''wf_692605e459d481909eb01292c1ae28e307b2a2a9ee1d324''])"
    if "(key, params) \<in> set (outbound_calls
          (performed w (snd (create_chatkit_session provider req w))))"
    for key params w provider req
    using that
    by (auto simp add: create_effects workflow_id_def split: option.splits if_splits)
  from one [OF assms(1)] one [OF assms(2)] show ?thesis by simp
qed

theorem workflow_independent_of_request_witness:
  "(''sk-one'', session_params ''device-123'') \<in> set (outbound_calls (performed
       \<lparr>environ = [''OPENAI_API_KEY'' \<mapsto> ''sk-one''], app = None, effects = []\<rparr>
       (snd (create_chatkit_session (\<lambda>key params. Inr \<lparr>client_secret = ''cs_abc''\<rparr>)
          \<lparr>deviceId = ''device-123''\<rparr>
          \<lparr>environ = [''OPENAI_API_KEY'' \<mapsto> ''sk-one''], app = None, effects = []\<rparr>))))
   \<and> (''sk-two'', session_params ''another device'') \<in> set (outbound_calls (performed
       \<lparr>environ = [''OPENAI_API_KEY'' \<mapsto> ''sk-two''], app = None, effects = []\<rparr>
       (snd (create_chatkit_session (\<lambda>key params. Inl (ProviderError ''rate limit''))
          \<lparr>deviceId = ''another device''\<rparr>
          \<lparr>environ = [''OPENAI_API_KEY'' \<mapsto> ''sk-two''], app = None, effects = []\<rparr>))))
   \<and> dict_get (session_params ''device-123'') ''workflow''
       = dict_get (session_params ''another device'') ''workflow''"
proof -
  have a: "(''sk-one'', session_params ''device-123'') \<in> set (outbound_calls (performed
       \<lparr>environ = [''OPENAI_API_KEY'' \<mapsto> ''sk-one''], app = None, effects = []\<rparr>
       (snd (create_chatkit_session (\<lambda>key params. Inr \<lparr>client_secret = ''cs_abc''\<rparr>)
          \<lparr>deviceId = ''device-123''\<rparr>
          \<lparr>environ = [''OPENAI_API_KEY'' \<mapsto> ''sk-one''], app = None, effects = []\<rparr>))))"
    by (simp add: create_set performed_def)
  have b: "(''sk-two'', session_params ''another device'') \<in> set (outbound_calls (performed
       \<lparr>environ = [''OPENAI_API_KEY'' \<mapsto> ''sk-two''], app = None, effects = []\<rparr>
       (snd (create_chatkit_session (\<lambda>key params. Inl (ProviderError ''rate limit''))
          \<lparr>deviceId = ''another device''\<rparr>
          \<lparr>environ = [''OPENAI_API_KEY'' \<mapsto> ''sk-two''], app = None, effects = []\<rparr>))))"
    by (simp add: create_set performed_def)
  from workflow_independent_of_request [OF a b] a b show ?thesis by blast
qed

text \<open>
  C6. With a credential configured and the provider call returning a session, the
  invocation succeeds, it has called the provider exactly once, and the state of the
  process after it is the state before it with two entries added to the log of effects,
  the read of the credential and that call: the environment and the module globals are
  what they were, nothing is stored. Every invocation that succeeds is of this kind.
\<close>

theorem success_one_call_no_mutation:
  "(environ w ''OPENAI_API_KEY'' = Some key \<and> key \<noteq> []
      \<and> provider key (session_params (deviceId req)) = Inr session
    \<longrightarrow> fst (create_chatkit_session provider req w)
          = Inr (JObject [''client_secret'' \<mapsto> JString (client_secret session)])
        \<and> outbound_calls (performed w (snd (create_chatkit_session provider req w)))
          = [(key, session_params (deviceId req))]
        \<and> length (outbound_calls
             (performed w (snd (create_chatkit_session provider req w)))) = 1
        \<and> environ (snd (create_chatkit_session provider req w)) = environ w
        \<and> app (snd (create_chatkit_session provider req w)) = app w
        \<and> snd (create_chatkit_session provider req w)
          = w\<lparr>effects := effects w @
                [Getenv ''OPENAI_API_KEY'',
                 SessionsCreate key (session_params (deviceId req))]\<rparr>)
   \<and> (create_chatkit_session provider req w = (Inr d, w')
    \<longrightarrow> (\<exists>key' session'.
           environ w ''OPENAI_API_KEY'' = Some key' \<and> key' \<noteq> []
           \<and> provider key' (session_params (deviceId req)) = Inr session'
           \<and> length (outbound_calls (performed w w')) = 1
           \<and> environ w' = environ w \<and> app w' = app w
           \<and> w' = w\<lparr>effects := effects w @
                  [Getenv ''OPENAI_API_KEY'',
                   SessionsCreate key' (session_params (deviceId req))]\<rparr>))"
proof -
  have forward: "fst (create_chatkit_session provider req w)
          = Inr (JObject [''client_secret'' \<mapsto> JString (client_secret session)])
        \<and> outbound_calls (performed w (snd (create_chatkit_session provider req w)))
          = [(key, session_params (deviceId req))]
        \<and> length (outbound_calls
             (performed w (snd (create_chatkit_session provider req w)))) = 1
        \<and> environ (snd (create_chatkit_session provider req w)) = environ w
        \<and> app (snd (create_chatkit_session provider req w)) = app w
        \<and> snd (create_chatkit_session provider req w)
          = w\<lparr>effects := effects w @
                [Getenv ''OPENAI_API_KEY'',
                 SessionsCreate key (session_params (deviceId req))]\<rparr>"
    if "environ w ''OPENAI_API_KEY'' = Some key" and "key \<noteq> []"
      and "provider key (session_params (deviceId req)) = Inr session"
    using that by (simp add: create_set)
  have backward: "\<exists>key' session'.
           environ w ''OPENAI_API_KEY'' = Some key' \<and> key' \<noteq> []
           \<and> provider key' (session_params (deviceId req)) = Inr session'
           \<and> length (outbound_calls (performed w w')) = 1
           \<and> environ w' = environ w \<and> app w' = app w
           \<and> w' = w\<lparr>effects := effects w @
                  [Getenv ''OPENAI_API_KEY'',
                   SessionsCreate key' (session_params (deviceId req))]\<rparr>"
    if run: "create_chatkit_session provider req w = (Inr d, w')"
  proof (cases "environ w ''OPENAI_API_KEY''")
    case None
    with run show ?thesis by (simp add: create_unset)
  next
    case (Some k)
    show ?thesis
    proof (cases "k = []")
      case True
      with Some run show ?thesis by (simp add: create_empty)
    next
      case False
      show ?thesis
      proof (cases "provider k (session_params (deviceId req))")
        case (Inl exn)
        with Some False run show ?thesis by (simp add: create_set)
      next
        case (Inr s)
        with Some False run
        have "w' = w\<lparr>effects := effects w @
                [Getenv ''OPENAI_API_KEY'',
                 SessionsCreate k (session_params (deviceId req))]\<rparr>"
          by (simp add: create_set)
        with Some False Inr show ?thesis by auto
      qed
    qed
  qed
  from forward backward show ?thesis by blast
qed

theorem success_one_call_no_mutation_witness:
  "fst (create_chatkit_session (\<lambda>key params. Inr \<lparr>client_secret = ''cs_abc''\<rparr>)
      \<lparr>deviceId = ''device-123''\<rparr>
      \<lparr>environ = [''OPENAI_API_KEY'' \<mapsto> ''sk-test''], app = None, effects = []\<rparr>)
     = Inr (JObject [''client_secret'' \<mapsto> JString ''cs_abc''])
   \<and> outbound_calls (performed
       \<lparr>environ = [''OPENAI_API_KEY'' \<mapsto> ''sk-test''], app = None, effects = []\<rparr>
       (snd (create_chatkit_session (\<lambda>key params. Inr \<lparr>client_secret = ''cs_abc''\<rparr>)
          \<lparr>deviceId = ''device-123''\<rparr>
          \<lparr>environ = [''OPENAI_API_KEY'' \<mapsto> ''sk-test''], app = None, effects = []\<rparr>)))
     = [(''sk-test'', session_params ''device-123'')]
   \<and> snd (create_chatkit_session (\<lambda>key params. Inr \<lparr>client_secret = ''cs_abc''\<rparr>)
      \<lparr>deviceId = ''device-123''\<rparr>
      \<lparr>environ = [''OPENAI_API_KEY'' \<mapsto> ''sk-test''], app = None, effects = []\<rparr>)
     = \<lparr>environ = [''OPENAI_API_KEY'' \<mapsto> ''sk-test''], app = None,
        effects = [Getenv ''OPENAI_API_KEY'',
                   SessionsCreate ''sk-test'' (session_params ''device-123'')]\<rparr>"
proof -
  have configured:
    "environ \<lparr>environ = [''OPENAI_API_KEY'' \<mapsto> ''sk-test''], app = None, effects = []\<rparr>
       ''OPENAI_API_KEY'' = Some ''sk-test''
     \<and> ''sk-test'' \<noteq> []
     \<and> (\<lambda>key params. Inr \<lparr>client_secret = ''cs_abc''\<rparr>) ''sk-test''
         (session_params (deviceId \<lparr>deviceId = ''device-123''\<rparr>))
       = Inr \<lparr>client_secret = ''cs_abc''\<rparr>"
    by simp
  from success_one_call_no_mutation
    [where w = "\<lparr>environ = [''OPENAI_API_KEY'' \<mapsto> ''sk-test''], app = None, effects = []\<rparr>"
       and key = "''sk-test''"
       and provider = "\<lambda>key params. Inr \<lparr>client_secret = ''cs_abc''\<rparr>"
       and req = "\<lparr>deviceId = ''device-123''\<rparr>"
       and session = "\<lparr>client_secret = ''cs_abc''\<rparr>",
     THEN conjunct1, THEN mp, OF configured]
  show ?thesis by (simp add: performed_def)
qed

text \<open>
  C7. Importing the module reads nothing from the environment. Every invocation of the
  handler reads the environment exactly once, and the variable it reads is
  \<^verbatim>\<open>OPENAI_API_KEY\<close>; the credential of any call it sends is the value the environment
  holds at the invocation; and two states of the process that agree on this one variable
  give the same result, so the handler consults no other configuration.
\<close>

theorem credential_read_once_at_request_time:
  "performed w0 (module_init w0) = []
   \<and> env_reads (performed w (snd (create_chatkit_session provider req w)))
       = [''OPENAI_API_KEY'']
   \<and> ((key, params) \<in> set (outbound_calls
          (performed w (snd (create_chatkit_session provider req w))))
        \<longrightarrow> environ w ''OPENAI_API_KEY'' = Some key)
   \<and> (environ w ''OPENAI_API_KEY'' = environ w2 ''OPENAI_API_KEY''
        \<longrightarrow> fst (create_chatkit_session provider req w)
            = fst (create_chatkit_session provider req w2))"
proof -
  have init: "performed w0 (module_init w0) = []"
    by (simp add: performed_def module_init_def)
  have reads: "env_reads (performed w (snd (create_chatkit_session provider req w)))
                 = [''OPENAI_API_KEY'']"
    by (simp add: create_effects split: option.splits)
  have used: "environ w ''OPENAI_API_KEY'' = Some key"
    if "(key, params) \<in> set (outbound_calls
          (performed w (snd (create_chatkit_session provider req w))))"
    using that by (auto simp add: create_effects split: option.splits if_splits)
  have same: "fst (create_chatkit_session provider req w)
                = fst (create_chatkit_session provider req w2)"
    if eq: "environ w ''OPENAI_API_KEY'' = environ w2 ''OPENAI_API_KEY''"
  proof (cases "environ w ''OPENAI_API_KEY''")
    case None
    with eq show ?thesis by (simp add: create_unset)
  next
    case (Some k)
    show ?thesis
    proof (cases "k = []")
      case True
      with Some eq show ?thesis by (simp add: create_empty)
    next
      case False
      with Some eq show ?thesis by (simp add: create_set)
    qed
  qed
  from init reads used same show ?thesis by blast
qed

text \<open>The same handler, with the same provider and request, first fails and then
  succeeds when the variable is set between the two invocations, long after the import.\<close>

theorem credential_read_once_at_request_time_witness:
  "(''sk-late'', session_params ''device-123'') \<in> set (outbound_calls (performed
       ((module_init \<lparr>environ = Map.empty, app = None, effects = []\<rparr>)
          \<lparr>environ := [''OPENAI_API_KEY'' \<mapsto> ''sk-late'']\<rparr>)
       (snd (create_chatkit_session (\<lambda>key params. Inr \<lparr>client_secret = ''cs_abc''\<rparr>)
          \<lparr>deviceId = ''device-123''\<rparr>
          ((module_init \<lparr>environ = Map.empty, app = None, effects = []\<rparr>)
             \<lparr>environ := [''OPENAI_API_KEY'' \<mapsto> ''sk-late'']\<rparr>)))))
   \<and> environ ((module_init \<lparr>environ = Map.empty, app = None, effects = []\<rparr>)
          \<lparr>environ := [''OPENAI_API_KEY'' \<mapsto> ''sk-late'']\<rparr>) ''OPENAI_API_KEY''
       = Some ''sk-late''
   \<and> fst (create_chatkit_session (\<lambda>key params. Inr \<lparr>client_secret = ''cs_abc''\<rparr>)
          \<lparr>deviceId = ''device-123''\<rparr>
          (module_init \<lparr>environ = Map.empty, app = None, effects = []\<rparr>))
       = fst (create_chatkit_session (\<lambda>key params. Inr \<lparr>client_secret = ''cs_abc''\<rparr>)
          \<lparr>deviceId = ''device-123''\<rparr>
          \<lparr>environ = [''HOME'' \<mapsto> ''/root''], app = None, effects = [Getenv ''HOME'']\<rparr>)"
proof -
  have call: "(''sk-late'', session_params ''device-123'') \<in> set (outbound_calls (performed
       ((module_init \<lparr>environ = Map.empty, app = None, effects = []\<rparr>)
          \<lparr>environ := [''OPENAI_API_KEY'' \<mapsto> ''sk-late'']\<rparr>)
       (snd (create_chatkit_session (\<lambda>key params. Inr \<lparr>client_secret = ''cs_abc''\<rparr>)
          \<lparr>deviceId = ''device-123''\<rparr>
          ((module_init \<lparr>environ = Map.empty, app = None, effects = []\<rparr>)
             \<lparr>environ := [''OPENAI_API_KEY'' \<mapsto> ''sk-late'']\<rparr>)))))"
    by (simp add: create_set module_init_def performed_def)
  have agree: "environ (module_init \<lparr>environ = Map.empty, app = None, effects = []\<rparr>)
                 ''OPENAI_API_KEY''
               = environ \<lparr>environ = [''HOME'' \<mapsto> ''/root''], app = None,
                   effects = [Getenv ''HOME'']\<rparr> ''OPENAI_API_KEY''"
    by (simp add: module_init_def)
  from call agree
    credential_read_once_at_request_time
      [of "\<lparr>environ = Map.empty, app = None, effects = []\<rparr>"
          "(module_init \<lparr>environ = Map.empty, app = None, effects = []\<rparr>)
             \<lparr>environ := [''OPENAI_API_KEY'' \<mapsto> ''sk-late'']\<rparr>"
          "\<lambda>key params. Inr \<lparr>client_secret = ''cs_abc''\<rparr>" "\<lparr>deviceId = ''device-123''\<rparr>"
          "''sk-late''" "session_params ''device-123''"]
    credential_read_once_at_request_time
      [of "\<lparr>environ = Map.empty, app = None, effects = []\<rparr>"
          "module_init \<lparr>environ = Map.empty, app = None, effects = []\<rparr>"
          "\<lambda>key params. Inr \<lparr>client_secret = ''cs_abc''\<rparr>" "\<lparr>deviceId = ''device-123''\<rparr>"
          "''sk-late''" "session_params ''device-123''"
          "\<lparr>environ = [''HOME'' \<mapsto> ''/root''], app = None, effects = [Getenv ''HOME'']\<rparr>"]
  show ?thesis by blast
qed

text \<open>
  C9. When the variable is set to the empty string, the handler does what it does when
  the variable is unset: the same configuration error, the same effects, and no call of
  the provider.
\<close>

theorem empty_credential_same_as_unset:
  assumes "environ w ''OPENAI_API_KEY'' = Some []"
  shows "fst (create_chatkit_session provider req w)
           = fst (create_chatkit_session provider req
                (w\<lparr>environ := (environ w)(''OPENAI_API_KEY'' := None)\<rparr>))
         \<and> performed w (snd (create_chatkit_session provider req w))
           = performed (w\<lparr>environ := (environ w)(''OPENAI_API_KEY'' := None)\<rparr>)
               (snd (create_chatkit_session provider req
                  (w\<lparr>environ := (environ w)(''OPENAI_API_KEY'' := None)\<rparr>)))
         \<and> fst (create_chatkit_session provider req w) = Inl (RuntimeError not_set_message)
         \<and> outbound_calls (performed w (snd (create_chatkit_session provider req w))) = []"
proof -
  have unset: "environ (w\<lparr>environ := (environ w)(''OPENAI_API_KEY'' := None)\<rparr>)
                 ''OPENAI_API_KEY'' = None"
    by simp
  show ?thesis
    by (simp add: create_empty [OF assms] create_unset [OF unset] performed_def)
qed

theorem empty_credential_same_as_unset_witness:
  "fst (create_chatkit_session (\<lambda>key params. Inr \<lparr>client_secret = ''cs_abc''\<rparr>)
      \<lparr>deviceId = ''device-123''\<rparr>
      \<lparr>environ = [''OPENAI_API_KEY'' \<mapsto> []], app = None, effects = []\<rparr>)
   = Inl (RuntimeError not_set_message)
   \<and> outbound_calls (performed
       \<lparr>environ = [''OPENAI_API_KEY'' \<mapsto> []], app = None, effects = []\<rparr>
       (snd (create_chatkit_session (\<lambda>key params. Inr \<lparr>client_secret = ''cs_abc''\<rparr>)
          \<lparr>deviceId = ''device-123''\<rparr>
          \<lparr>environ = [''OPENAI_API_KEY'' \<mapsto> []], app = None, effects = []\<rparr>))) = []"
proof -
  have h: "environ \<lparr>environ = [''OPENAI_API_KEY'' \<mapsto> []], app = None, effects = []\<rparr>
             ''OPENAI_API_KEY'' = Some []"
    by simp
  from empty_credential_same_as_unset
    [OF h, where provider = "\<lambda>key params. Inr \<lparr>client_secret = ''cs_abc''\<rparr>"
       and req = "\<lparr>deviceId = ''device-123''\<rparr>"]
  show ?thesis by blast
qed

text \<open>
  C10. The body whose \<^verbatim>\<open>deviceId\<close> is the empty string passes validation. With a
  credential configured and the provider call succeeding, the route calls the provider
  with the empty string under \<^verbatim>\<open>user\<close> and answers 200 with the client secret of the
  session.
\<close>

theorem empty_device_id_accepted:
  assumes "environ w ''OPENAI_API_KEY'' = Some key" and "key \<noteq> []"
    and "provider key (session_params []) = Inr session"
  shows "SessionRequest_validate (JObject [''deviceId'' \<mapsto> JString []]) = Inr \<lparr>deviceId = []\<rparr>
         \<and> post_chatkit_session provider (JObject [''deviceId'' \<mapsto> JString []]) w =
             (\<lparr>status_code = 200,
               body = JSONContent
                 (JObject [''client_secret'' \<mapsto> JString (client_secret session)])\<rparr>,
              w\<lparr>effects := effects w @
                   [Getenv ''OPENAI_API_KEY'', SessionsCreate key (session_params [])]\<rparr>)
         \<and> dict_get (session_params []) ''user'' = Some (JString [])"
  using assms
  by (simp add: SessionRequest_validate_def post_chatkit_session_def create_set)

theorem empty_device_id_accepted_witness:
  "post_chatkit_session (\<lambda>key params. Inr \<lparr>client_secret = ''cs_abc''\<rparr>)
     (JObject [''deviceId'' \<mapsto> JString []])
     \<lparr>environ = [''OPENAI_API_KEY'' \<mapsto> ''sk-test''], app = None, effects = []\<rparr>
   = (\<lparr>status_code = 200,
       body = JSONContent (JObject [''client_secret'' \<mapsto> JString ''cs_abc''])\<rparr>,
      \<lparr>environ = [''OPENAI_API_KEY'' \<mapsto> ''sk-test''], app = None,
       effects = [Getenv ''OPENAI_API_KEY'', SessionsCreate ''sk-test'' (session_params [])]\<rparr>)"
  using empty_device_id_accepted
    [of "\<lparr>environ = [''OPENAI_API_KEY'' \<mapsto> ''sk-test''], app = None, effects = []\<rparr>"
        "''sk-test''" "\<lambda>key params. Inr \<lparr>client_secret = ''cs_abc''\<rparr>"
        "\<lparr>client_secret = ''cs_abc''\<rparr>"]
  by simp

end
